theory Spec2Isabelle
  imports Complex_Main "HOL-Library.AList"
begin

section \<open>Sherlock Homes risk scorer: the base risk components\<close>

text \<open>
  The scorer of \<^verbatim>\<open>risk_scorer.py\<close> computes with Python numbers. An \<^verbatim>\<open>int\<close> is
  modelled as \<^typ>\<open>int\<close>, a \<^verbatim>\<open>float\<close> as an exact \<^typ>\<open>real\<close>: every constant of the
  source (\<^verbatim>\<open>0.17\<close>, \<^verbatim>\<open>2.86\<close>, ...) is the decimal fraction that is written there, and
  sums and products are exact. Method names lose their leading underscore, which an
  Isabelle name cannot start with; a local variable that shares its name with a field
  of a record carries a prime.
\<close>

subsection \<open>The five piecewise-linear components\<close>

definition calculate_credit_risk :: "int \<Rightarrow> real" where
  "calculate_credit_risk credit_score =
     (if credit_score \<ge> 800 then 5 + real_of_int (850 - credit_score) * 0.1
      else if credit_score \<ge> 740 then 10 + real_of_int (799 - credit_score) * 0.17
      else if credit_score \<ge> 670 then 20 + real_of_int (739 - credit_score) * 0.22
      else if credit_score \<ge> 580 then 35 + real_of_int (669 - credit_score) * 0.22
      else 55 + real_of_int (579 - credit_score) * 0.09)"

definition calculate_dti_risk :: "real \<Rightarrow> real" where
  "calculate_dti_risk dti =
     (if dti \<le> 20 then 5 + dti * 0.5
      else if dti \<le> 36 then 15 + (dti - 20) * 0.94
      else if dti \<le> 43 then 30 + (dti - 36) * 2.86
      else if dti \<le> 50 then 50 + (dti - 43) * 2.86
      else min (70 + (dti - 50) * 2) 90)"

definition calculate_ltv_risk :: "real \<Rightarrow> real" where
  "calculate_ltv_risk ltv =
     (if ltv \<le> 60 then 5 + ltv * 0.17
      else if ltv \<le> 80 then 15 + (ltv - 60) * 0.5
      else if ltv \<le> 90 then 25 + (ltv - 80) * 2
      else if ltv \<le> 95 then 45 + (ltv - 90) * 4
      else min (65 + (ltv - 95) * 4) 85)"

definition calculate_employment_risk :: "real \<Rightarrow> real" where
  "calculate_employment_risk years =
     (if years \<ge> 5 then 10 + max 0 (10 - years) * 1
      else if years \<ge> 2 then 20 + (5 - years) * 6.67
      else if years \<ge> 1 then 40 + (2 - years) * 15
      else 55 + (1 - years) * 15)"

definition calculate_reserves_risk :: "int \<Rightarrow> real" where
  "calculate_reserves_risk months =
     (if months \<ge> 12 then 5 + real_of_int (max 0 (24 - months)) * 0.83
      else if months \<ge> 6 then 15 + real_of_int (12 - months) * 2.5
      else if months \<ge> 3 then 30 + real_of_int (6 - months) * 5
      else if months \<ge> 1 then 45 + real_of_int (3 - months) * 7.5
      else 60 + real_of_int (1 - months) * 15)"

section \<open>Dictionaries, errors and rounding\<close>

text \<open>
  A constant table of the source (\<^verbatim>\<open>TRADITIONAL_WEIGHTS\<close>, \<^verbatim>\<open>MODIFIER_WEIGHTS\<close>, the
  maps of the feature builders) is an association list in the order it is written.
  \<^verbatim>\<open>d[k]\<close> raises \<^verbatim>\<open>KeyError\<close> on a missing key, \<^verbatim>\<open>d.get(k, default)\<close> does not.
  A dictionary that the code receives (the application, the extracted fields of a
  profile) is a record with one optional field per key that the code reads: \<open>None\<close> is
  a missing key, and a present key holds a value of the type the code expects.
\<close>

datatype error = KeyError string

definition bind_err :: "error + 'a \<Rightarrow> ('a \<Rightarrow> error + 'b) \<Rightarrow> error + 'b" where
  "bind_err r f = (case r of Inl e \<Rightarrow> Inl e | Inr v \<Rightarrow> f v)"

definition subscript :: "(string \<times> 'v) list \<Rightarrow> string \<Rightarrow> error + 'v" where
  "subscript d k = (case map_of d k of None \<Rightarrow> Inl (KeyError k) | Some v \<Rightarrow> Inr v)"

definition table_get :: "(string \<times> 'v) list \<Rightarrow> string \<Rightarrow> 'v \<Rightarrow> 'v" where
  "table_get d k dflt = (case map_of d k of None \<Rightarrow> dflt | Some v \<Rightarrow> v)"

definition dict_get :: "'v option \<Rightarrow> 'v \<Rightarrow> 'v" where
  "dict_get entry dflt = (case entry of None \<Rightarrow> dflt | Some v \<Rightarrow> v)"

text \<open>Python's \<^verbatim>\<open>sum\<close> adds from the left, starting at 0.\<close>

definition py_sum :: "real list \<Rightarrow> real" where
  "py_sum xs = foldl (+) 0 xs"

text \<open>Python's \<^verbatim>\<open>round\<close> to an integer rounds a tie to the even neighbour.\<close>

definition py_round :: "real \<Rightarrow> int" where
  "py_round x =
     (let f = \<lfloor>x\<rfloor>; d = x - real_of_int f
      in if d < 1 / 2 then f else if 1 / 2 < d then f + 1
         else if even f then f else f + 1)"

text \<open>\<^verbatim>\<open>str.lower\<close> on the ASCII letters; \<^verbatim>\<open>str.replace\<close> of one character by another.\<close>

definition lower :: "string \<Rightarrow> string" where
  "lower s = map (\<lambda>c. let n = (of_char c :: nat)
                       in if 65 \<le> n \<and> n \<le> 90 then char_of (n + 32) else c) s"

definition replace_char :: "char \<Rightarrow> char \<Rightarrow> string \<Rightarrow> string" where
  "replace_char old new s = map (\<lambda>c. if c = old then new else c) s"

section \<open>Weights\<close>

definition TRADITIONAL_WEIGHTS :: "(string \<times> real) list" where
  "TRADITIONAL_WEIGHTS =
     [(''credit_score'', 0.35), (''dti'', 0.25), (''ltv'', 0.20),
      (''employment'', 0.10), (''reserves'', 0.10)]"

definition MODIFIER_WEIGHTS :: "(string \<times> real) list" where
  "MODIFIER_WEIGHTS =
     [(''professional_credibility'', 2.0), (''job_stability'', 2.0),
      (''lifestyle_stability'', 1.5), (''income_lifestyle_alignment'', 1.5),
      (''social_support'', 1.0), (''community_rootedness'', 1.0),
      (''relationship_stability'', 1.0)]"

definition MAX_MODIFIER_ADJUSTMENT :: real where
  "MAX_MODIFIER_ADJUSTMENT = 10"

section \<open>Feature groups\<close>

record TraditionalFeatures =
  credit_score :: real
  credit_history_years :: real
  annual_income :: real
  employment_length_months :: int
  is_self_employed :: bool
  income_verified :: bool
  debt_to_income_ratio :: real
  monthly_debt_payments :: real
  loan_amount :: real
  property_value :: real
  loan_to_value_ratio :: real
  loan_purpose :: string
  property_type :: string
  is_primary_residence :: bool
  total_assets :: real
  liquid_assets :: real
  reserves_months :: int

record ProfessionalFeatures =
  current_job_months :: int
  total_experience_years :: real
  jobs_last_5_years :: int
  career_trajectory :: int
  education_level :: int
  has_advanced_degree :: bool
  industry_stability :: real
  industry :: string
  profile_completeness :: real
  has_recommendations :: bool
  connection_count_tier :: int
  employment_gaps :: int
  frequent_job_changes :: bool
  profile_inconsistencies :: int
  job_stability_score :: real
  professional_credibility_score :: real

record LifestyleFeatures =
  lifestyle_level :: int
  apparent_spending_vs_income :: real
  luxury_items_visible :: bool
  frequent_expensive_travel :: bool
  vehicle_tier :: int
  housing_quality_apparent :: int
  appears_homeowner :: bool
  location_cost_of_living :: real
  travel_frequency :: int
  expensive_hobbies :: bool
  gambling_indicators :: bool
  substance_use_indicators :: bool
  financial_responsibility_signals :: int
  financial_irresponsibility_signals :: int
  lifestyle_stability_score :: real
  income_lifestyle_alignment :: real

record SocialConnectednessFeatures =
  total_followers_tier :: int
  engagement_rate :: real
  authentic_connections :: real
  relationship_status :: int
  family_presence_in_content :: real
  appears_stable_relationship :: bool
  has_children :: bool
  community_involvement :: real
  group_memberships :: int
  volunteer_charity_involvement :: bool
  religious_community_ties :: bool
  long_term_friendships_visible :: bool
  local_community_ties :: real
  geographic_stability :: real
  social_isolation_indicators :: bool
  conflict_drama_indicators :: int
  relationship_instability_signals :: int
  social_support_score :: real
  community_rootedness_score :: real
  relationship_stability_score :: real

record CombinedFeatures =
  traditional :: TraditionalFeatures
  professional :: ProfessionalFeatures
  lifestyle :: LifestyleFeatures
  social :: SocialConnectednessFeatures

text \<open>The dataclass defaults: what \<^verbatim>\<open>ProfessionalFeatures()\<close> and its siblings construct.\<close>

definition default_TraditionalFeatures :: TraditionalFeatures where
  "default_TraditionalFeatures =
     \<lparr>credit_score = 0.0, credit_history_years = 0.0, annual_income = 0.0,
      employment_length_months = 0, is_self_employed = False, income_verified = False,
      debt_to_income_ratio = 0.0, monthly_debt_payments = 0.0, loan_amount = 0.0,
      property_value = 0.0, loan_to_value_ratio = 0.0, loan_purpose = ''purchase'',
      property_type = ''single_family'', is_primary_residence = True,
      total_assets = 0.0, liquid_assets = 0.0, reserves_months = 0\<rparr>"

definition default_ProfessionalFeatures :: ProfessionalFeatures where
  "default_ProfessionalFeatures =
     \<lparr>current_job_months = 0, total_experience_years = 0.0, jobs_last_5_years = 0,
      career_trajectory = 3, education_level = 0, has_advanced_degree = False,
      industry_stability = 0.5, industry = [], profile_completeness = 0.5,
      has_recommendations = False, connection_count_tier = 2, employment_gaps = 0,
      frequent_job_changes = False, profile_inconsistencies = 0,
      job_stability_score = 0.5, professional_credibility_score = 0.5\<rparr>"

definition default_LifestyleFeatures :: LifestyleFeatures where
  "default_LifestyleFeatures =
     \<lparr>lifestyle_level = 3, apparent_spending_vs_income = 0.5,
      luxury_items_visible = False, frequent_expensive_travel = False, vehicle_tier = 2,
      housing_quality_apparent = 2, appears_homeowner = False,
      location_cost_of_living = 0.5, travel_frequency = 2, expensive_hobbies = False,
      gambling_indicators = False, substance_use_indicators = False,
      financial_responsibility_signals = 0, financial_irresponsibility_signals = 0,
      lifestyle_stability_score = 0.5, income_lifestyle_alignment = 0.5\<rparr>"

definition default_SocialConnectednessFeatures :: SocialConnectednessFeatures where
  "default_SocialConnectednessFeatures =
     \<lparr>total_followers_tier = 2, engagement_rate = 0.5, authentic_connections = 0.5,
      relationship_status = 0, family_presence_in_content = 0.5,
      appears_stable_relationship = False, has_children = False,
      community_involvement = 0.5, group_memberships = 0,
      volunteer_charity_involvement = False, religious_community_ties = False,
      long_term_friendships_visible = False, local_community_ties = 0.5,
      geographic_stability = 0.5, social_isolation_indicators = False,
      conflict_drama_indicators = 0, relationship_instability_signals = 0,
      social_support_score = 0.5, community_rootedness_score = 0.5,
      relationship_stability_score = 0.5\<rparr>"

section \<open>The feature extractor\<close>

subsection \<open>The application dictionary and the traditional features\<close>

record application =
  app_id :: "string option"
  app_borrower :: "string option"
  app_credit_score :: "int option"
  app_dti :: "real option"
  app_ltv :: "real option"
  app_employment_years :: "real option"
  app_reserves_months :: "int option"
  app_credit_history_years :: "real option"
  app_annual_income :: "real option"
  app_employment_length_months :: "int option"
  app_is_self_employed :: "bool option"
  app_income_verified :: "bool option"
  app_monthly_debt_payments :: "real option"
  app_debt_to_income_ratio :: "real option"
  app_loan_amount :: "real option"
  app_property_value :: "real option"
  app_loan_to_value_ratio :: "real option"
  app_loan_purpose :: "string option"
  app_property_type :: "string option"
  app_is_primary_residence :: "bool option"
  app_total_assets :: "real option"
  app_liquid_assets :: "real option"
  app_loan_type :: "string option"
  app_property_address :: "string option"

definition extract_traditional_features :: "application \<Rightarrow> TraditionalFeatures" where
  "extract_traditional_features data =
     (let features = default_TraditionalFeatures;
          features = features\<lparr>credit_score := real_of_int (dict_get (app_credit_score data) 0)\<rparr>;
          features = features\<lparr>credit_history_years := dict_get (app_credit_history_years data) 0\<rparr>;
          features = features\<lparr>annual_income := dict_get (app_annual_income data) 0\<rparr>;
          features = features\<lparr>employment_length_months :=
                       dict_get (app_employment_length_months data) 0\<rparr>;
          features = features\<lparr>is_self_employed := dict_get (app_is_self_employed data) False\<rparr>;
          features = features\<lparr>income_verified := dict_get (app_income_verified data) False\<rparr>;
          features = features\<lparr>monthly_debt_payments :=
                       dict_get (app_monthly_debt_payments data) 0\<rparr>;
          features =
            (if annual_income features > 0 then
               let monthly_income = annual_income features / 12
               in features\<lparr>debt_to_income_ratio :=
                    dict_get (app_debt_to_income_ratio data)
                      (if monthly_income > 0
                       then monthly_debt_payments features / monthly_income else 0)\<rparr>
             else features\<lparr>debt_to_income_ratio :=
                    dict_get (app_debt_to_income_ratio data) 0\<rparr>);
          features = features\<lparr>loan_amount := dict_get (app_loan_amount data) 0\<rparr>;
          features = features\<lparr>property_value := dict_get (app_property_value data) 0\<rparr>;
          features =
            (if property_value features > 0 then
               features\<lparr>loan_to_value_ratio :=
                 dict_get (app_loan_to_value_ratio data)
                   (loan_amount features / property_value features)\<rparr>
             else features\<lparr>loan_to_value_ratio :=
                    dict_get (app_loan_to_value_ratio data) 0\<rparr>);
          features = features\<lparr>loan_purpose := dict_get (app_loan_purpose data) ''purchase''\<rparr>;
          features = features\<lparr>property_type :=
                       dict_get (app_property_type data) ''single_family''\<rparr>;
          features = features\<lparr>is_primary_residence :=
                       dict_get (app_is_primary_residence data) True\<rparr>;
          features = features\<lparr>total_assets := dict_get (app_total_assets data) 0\<rparr>;
          features = features\<lparr>liquid_assets := dict_get (app_liquid_assets data) 0\<rparr>;
          features = features\<lparr>reserves_months := dict_get (app_reserves_months data) 0\<rparr>
      in features)"

subsection \<open>Derived scores\<close>

definition calculate_job_stability_score :: "ProfessionalFeatures \<Rightarrow> real" where
  "calculate_job_stability_score features =
     (let score = 0.5;
          tenure_bonus = min (real_of_int (current_job_months features) / 60) 1.0 * 0.3;
          score = score + tenure_bonus;
          score = (if jobs_last_5_years features > 3
                   then let hopping_penalty =
                              min (real_of_int (jobs_last_5_years features - 3) * 0.1) 0.3
                        in score - hopping_penalty
                   else score);
          gap_penalty = min (real_of_int (employment_gaps features) * 0.1) 0.2;
          score = score - gap_penalty;
          trajectory_adjustment = real_of_int (career_trajectory features - 3) * 0.05;
          score = score + trajectory_adjustment
      in max 0.0 (min 1.0 score))"

definition calculate_professional_credibility_score :: "ProfessionalFeatures \<Rightarrow> real" where
  "calculate_professional_credibility_score features =
     (let score = 0.0;
          score = score + (real_of_int (education_level features) / 5) * 0.25;
          score = score + min (total_experience_years features / 20) 1.0 * 0.25;
          score = score + profile_completeness features * 0.2;
          score = score + (real_of_int (connection_count_tier features) / 3) * 0.15;
          score = (if has_recommendations features then score + 0.1 else score);
          score = score + industry_stability features * 0.05
      in max 0.0 (min 1.0 score))"

definition calculate_lifestyle_stability_score :: "LifestyleFeatures \<Rightarrow> real" where
  "calculate_lifestyle_stability_score features =
     (let score = 0.5;
          score = (if gambling_indicators features then score - 0.2 else score);
          score = (if substance_use_indicators features then score - 0.15 else score);
          score = (if apparent_spending_vs_income features > 0.6
                   then score - (apparent_spending_vs_income features - 0.6) * 0.5
                   else score);
          score = score
                  + min (real_of_int (financial_responsibility_signals features) * 0.05) 0.2;
          score = score
                  - min (real_of_int (financial_irresponsibility_signals features) * 0.05) 0.2;
          score = (if appears_homeowner features then score + 0.1 else score)
      in max 0.0 (min 1.0 score))"

definition calculate_income_lifestyle_alignment :: "LifestyleFeatures \<Rightarrow> real" where
  "calculate_income_lifestyle_alignment features =
     (let alignment = 1.0 - \<bar>apparent_spending_vs_income features - 0.5\<bar> * 2;
          alignment = (if luxury_items_visible features
                          \<and> apparent_spending_vs_income features > 0.6
                       then alignment - 0.2 else alignment);
          alignment = (if frequent_expensive_travel features
                          \<and> apparent_spending_vs_income features > 0.6
                       then alignment - 0.15 else alignment)
      in max 0.0 (min 1.0 alignment))"

definition calculate_social_support_score :: "SocialConnectednessFeatures \<Rightarrow> real" where
  "calculate_social_support_score features =
     (let score = 0.0;
          score = score + family_presence_in_content features * 0.2;
          score = score + community_involvement features * 0.2;
          score = (if appears_stable_relationship features then score + 0.15 else score);
          score = (if long_term_friendships_visible features then score + 0.15 else score);
          score = (if volunteer_charity_involvement features then score + 0.1 else score);
          score = score + authentic_connections features * 0.1;
          score = (if social_isolation_indicators features then score - 0.2 else score);
          score = score - min (real_of_int (conflict_drama_indicators features) * 0.05) 0.15
      in max 0.0 (min 1.0 score))"

definition calculate_community_rootedness_score :: "SocialConnectednessFeatures \<Rightarrow> real" where
  "calculate_community_rootedness_score features =
     (let score = 0.0;
          score = score + local_community_ties features * 0.3;
          score = score + geographic_stability features * 0.25;
          score = score + community_involvement features * 0.2;
          score = score + min (real_of_int (group_memberships features) / 10) 1.0 * 0.15;
          score = (if religious_community_ties features then score + 0.1 else score)
      in max 0.0 (min 1.0 score))"

definition calculate_relationship_stability_score :: "SocialConnectednessFeatures \<Rightarrow> real" where
  "calculate_relationship_stability_score features =
     (let score = 0.5;
          score = (if appears_stable_relationship features then score + 0.2 else score);
          score = (if relationship_status features \<ge> 3 then score + 0.1 else score);
          score = (if has_children features then score + 0.05 else score);
          score = score
                  - min (real_of_int (relationship_instability_signals features) * 0.1) 0.3;
          score = (if social_isolation_indicators features then score - 0.1 else score)
      in max 0.0 (min 1.0 score))"

subsection \<open>Building the feature groups from extracted profile data\<close>

definition INDUSTRY_STABILITY :: "(string \<times> real) list" where
  "INDUSTRY_STABILITY =
     [(''healthcare'', 0.9), (''government'', 0.95), (''education'', 0.85),
      (''finance'', 0.8), (''technology'', 0.7), (''consulting'', 0.6),
      (''retail'', 0.5), (''hospitality'', 0.4), (''entertainment'', 0.45),
      (''construction'', 0.55), (''manufacturing'', 0.65), (''real estate'', 0.6),
      (''energy'', 0.7), (''agriculture'', 0.6), (''transportation'', 0.65),
      (''legal'', 0.85), (''nonprofit'', 0.7), (''default'', 0.5)]"

record professional_extracted =
  px_current_job_months :: "int option"
  px_total_experience_years :: "real option"
  px_jobs_last_5_years :: "int option"
  px_career_trajectory :: "string option"
  px_education_level :: "string option"
  px_industry :: "string option"
  px_profile_completeness :: "real option"
  px_has_recommendations :: "bool option"
  px_connection_count :: "string option"
  px_employment_gaps :: "int option"
  px_red_flags :: "string list option"

definition build_professional_features ::
  "professional_extracted \<Rightarrow> error + ProfessionalFeatures" where
  "build_professional_features extracted =
     (let features = default_ProfessionalFeatures;
          features = features\<lparr>current_job_months :=
                       dict_get (px_current_job_months extracted) 0\<rparr>;
          features = features\<lparr>total_experience_years :=
                       dict_get (px_total_experience_years extracted) 0\<rparr>;
          features = features\<lparr>jobs_last_5_years :=
                       dict_get (px_jobs_last_5_years extracted) 1\<rparr>;
          trajectory_map = [(''declining'', 1), (''unstable'', 2), (''stable'', 3),
                            (''growing'', 4), (''rapidly_growing'', 5)];
          features = features\<lparr>career_trajectory :=
                       table_get trajectory_map
                         (dict_get (px_career_trajectory extracted) ''stable'') 3\<rparr>;
          education_map = [(''unknown'', 0), (''high_school'', 1), (''associate'', 2),
                           (''bachelor'', 3), (''master'', 4), (''phd'', 5)];
          features = features\<lparr>education_level :=
                       table_get education_map
                         (dict_get (px_education_level extracted) ''unknown'') 0\<rparr>;
          features = features\<lparr>has_advanced_degree := (education_level features \<ge> 4)\<rparr>;
          features = features\<lparr>industry := lower (dict_get (px_industry extracted) [])\<rparr>
      in bind_err (subscript INDUSTRY_STABILITY ''default'') (\<lambda>default_stability.
         let features = features\<lparr>industry_stability :=
                          table_get INDUSTRY_STABILITY (industry features)
                            default_stability\<rparr>;
             features = features\<lparr>profile_completeness :=
                          dict_get (px_profile_completeness extracted) 0.5\<rparr>;
             features = features\<lparr>has_recommendations :=
                          dict_get (px_has_recommendations extracted) False\<rparr>;
             connection_map = [(''low'', 1), (''medium'', 2), (''high'', 3)];
             features = features\<lparr>connection_count_tier :=
                          table_get connection_map
                            (dict_get (px_connection_count extracted) ''medium'') 2\<rparr>;
             features = features\<lparr>employment_gaps :=
                          dict_get (px_employment_gaps extracted) 0\<rparr>;
             features = features\<lparr>frequent_job_changes := (jobs_last_5_years features > 3)\<rparr>;
             features = features\<lparr>profile_inconsistencies :=
                          int (length (dict_get (px_red_flags extracted) []))\<rparr>;
             features = features\<lparr>job_stability_score :=
                          calculate_job_stability_score features\<rparr>;
             features = features\<lparr>professional_credibility_score :=
                          calculate_professional_credibility_score features\<rparr>
         in Inr features))"

record lifestyle_extracted =
  lx_lifestyle_level :: "string option"
  lx_spending_vs_income :: "string option"
  lx_luxury_items_visible :: "bool option"
  lx_frequent_expensive_travel :: "bool option"
  lx_vehicle_type :: "string option"
  lx_housing_quality :: "string option"
  lx_appears_homeowner :: "bool option"
  lx_travel_frequency :: "string option"
  lx_expensive_hobbies :: "bool option"
  lx_gambling_indicators :: "bool option"
  lx_substance_use_indicators :: "bool option"
  lx_financial_responsibility_signals :: "string list option"
  lx_financial_irresponsibility_signals :: "string list option"

definition build_lifestyle_features :: "lifestyle_extracted \<Rightarrow> LifestyleFeatures" where
  "build_lifestyle_features extracted =
     (let features = default_LifestyleFeatures;
          lifestyle_map = [(''frugal'', 1), (''modest'', 2), (''comfortable'', 3),
                           (''affluent'', 4), (''lavish'', 5)];
          features = features\<lparr>lifestyle_level :=
                       table_get lifestyle_map
                         (dict_get (lx_lifestyle_level extracted) ''comfortable'') 3\<rparr>;
          spending_map = [(''underspending'', 0.2), (''balanced'', 0.5),
                          (''overspending'', 0.8)];
          features = features\<lparr>apparent_spending_vs_income :=
                       table_get spending_map
                         (dict_get (lx_spending_vs_income extracted) ''balanced'') 0.5\<rparr>;
          features = features\<lparr>luxury_items_visible :=
                       dict_get (lx_luxury_items_visible extracted) False\<rparr>;
          features = features\<lparr>frequent_expensive_travel :=
                       dict_get (lx_frequent_expensive_travel extracted) False\<rparr>;
          vehicle_map = [(''economy'', 1), (''standard'', 2), (''luxury'', 3)];
          features = features\<lparr>vehicle_tier :=
                       table_get vehicle_map
                         (dict_get (lx_vehicle_type extracted) ''standard'') 2\<rparr>;
          housing_map = [(''modest'', 1), (''average'', 2), (''upscale'', 3)];
          features = features\<lparr>housing_quality_apparent :=
                       table_get housing_map
                         (dict_get (lx_housing_quality extracted) ''average'') 2\<rparr>;
          features = features\<lparr>appears_homeowner :=
                       dict_get (lx_appears_homeowner extracted) False\<rparr>;
          travel_map = [(''rarely'', 1), (''occasionally'', 2), (''frequently'', 3)];
          features = features\<lparr>travel_frequency :=
                       table_get travel_map
                         (dict_get (lx_travel_frequency extracted) ''occasionally'') 2\<rparr>;
          features = features\<lparr>expensive_hobbies :=
                       dict_get (lx_expensive_hobbies extracted) False\<rparr>;
          features = features\<lparr>gambling_indicators :=
                       dict_get (lx_gambling_indicators extracted) False\<rparr>;
          features = features\<lparr>substance_use_indicators :=
                       dict_get (lx_substance_use_indicators extracted) False\<rparr>;
          features = features\<lparr>financial_responsibility_signals :=
                       int (length (dict_get (lx_financial_responsibility_signals extracted) []))\<rparr>;
          features = features\<lparr>financial_irresponsibility_signals :=
                       int (length (dict_get (lx_financial_irresponsibility_signals extracted) []))\<rparr>;
          features = features\<lparr>lifestyle_stability_score :=
                       calculate_lifestyle_stability_score features\<rparr>;
          features = features\<lparr>income_lifestyle_alignment :=
                       calculate_income_lifestyle_alignment features\<rparr>
      in features)"

record social_extracted =
  sx_follower_tier :: "string option"
  sx_engagement_quality :: "string option"
  sx_authentic_connections :: "bool option"
  sx_relationship_status :: "string option"
  sx_family_presence :: "string option"
  sx_appears_stable_relationship :: "bool option"
  sx_has_children :: "bool option"
  sx_community_involvement :: "string option"
  sx_group_memberships :: "int option"
  sx_volunteer_charity :: "bool option"
  sx_religious_community :: "bool option"
  sx_long_term_friendships :: "bool option"
  sx_local_ties :: "string option"
  sx_geographic_stability :: "bool option"
  sx_social_isolation_indicators :: "bool option"
  sx_conflict_indicators :: "int option"
  sx_relationship_instability :: "int option"

definition build_social_features :: "social_extracted \<Rightarrow> SocialConnectednessFeatures" where
  "build_social_features extracted =
     (let features = default_SocialConnectednessFeatures;
          tier_map = [(''low'', 1), (''medium'', 2), (''high'', 3)];
          features = features\<lparr>total_followers_tier :=
                       table_get tier_map
                         (dict_get (sx_follower_tier extracted) ''medium'') 2\<rparr>;
          engagement_map = [(''low'', 0.2), (''medium'', 0.5), (''high'', 0.8)];
          features = features\<lparr>engagement_rate :=
                       table_get engagement_map
                         (dict_get (sx_engagement_quality extracted) ''medium'') 0.5\<rparr>;
          features = features\<lparr>authentic_connections :=
                       (if dict_get (sx_authentic_connections extracted) True
                        then 0.8 else 0.3)\<rparr>;
          relationship_map = [(''unknown'', 0), (''single'', 1), (''in_relationship'', 2),
                              (''married'', 3), (''married_with_children'', 4)];
          features = features\<lparr>relationship_status :=
                       table_get relationship_map
                         (dict_get (sx_relationship_status extracted) ''unknown'') 0\<rparr>;
          family_map = [(''none'', 0.1), (''occasional'', 0.5), (''frequent'', 0.9)];
          features = features\<lparr>family_presence_in_content :=
                       table_get family_map
                         (dict_get (sx_family_presence extracted) ''occasional'') 0.5\<rparr>;
          features = features\<lparr>appears_stable_relationship :=
                       dict_get (sx_appears_stable_relationship extracted) False\<rparr>;
          features = features\<lparr>has_children := dict_get (sx_has_children extracted) False\<rparr>;
          community_map = [(''none'', 0.0), (''low'', 0.3), (''medium'', 0.6),
                           (''high'', 0.9)];
          features = features\<lparr>community_involvement :=
                       table_get community_map
                         (dict_get (sx_community_involvement extracted) ''low'') 0.3\<rparr>;
          features = features\<lparr>group_memberships :=
                       dict_get (sx_group_memberships extracted) 0\<rparr>;
          features = features\<lparr>volunteer_charity_involvement :=
                       dict_get (sx_volunteer_charity extracted) False\<rparr>;
          features = features\<lparr>religious_community_ties :=
                       dict_get (sx_religious_community extracted) False\<rparr>;
          features = features\<lparr>long_term_friendships_visible :=
                       dict_get (sx_long_term_friendships extracted) False\<rparr>;
          ties_map = [(''weak'', 0.2), (''moderate'', 0.5), (''strong'', 0.8)];
          features = features\<lparr>local_community_ties :=
                       table_get ties_map
                         (dict_get (sx_local_ties extracted) ''moderate'') 0.5\<rparr>;
          features = features\<lparr>geographic_stability :=
                       (if dict_get (sx_geographic_stability extracted) True
                        then 0.8 else 0.3)\<rparr>;
          features = features\<lparr>social_isolation_indicators :=
                       dict_get (sx_social_isolation_indicators extracted) False\<rparr>;
          features = features\<lparr>conflict_drama_indicators :=
                       dict_get (sx_conflict_indicators extracted) 0\<rparr>;
          features = features\<lparr>relationship_instability_signals :=
                       dict_get (sx_relationship_instability extracted) 0\<rparr>;
          features = features\<lparr>social_support_score :=
                       calculate_social_support_score features\<rparr>;
          features = features\<lparr>community_rootedness_score :=
                       calculate_community_rootedness_score features\<rparr>;
          features = features\<lparr>relationship_stability_score :=
                       calculate_relationship_stability_score features\<rparr>
      in features)"

section \<open>The risk scorer\<close>

subsection \<open>Modifiers from the feature groups\<close>

text \<open>
  The dictionary \<^verbatim>\<open>modifiers\<close> is an association list in insertion order; assigning to a
  key replaces its value in place or appends a new entry.
\<close>

definition calculate_modifiers :: "CombinedFeatures \<Rightarrow> error + (string \<times> real) list" where
  "calculate_modifiers features =
     (let modifiers = [];
          prof_score = professional_credibility_score (professional features)
      in bind_err (subscript MODIFIER_WEIGHTS ''professional_credibility'') (\<lambda>w.
         let modifiers = AList.update ''professional_credibility''
                           ((0.5 - prof_score) * w * 2) modifiers;
             job_score = job_stability_score (professional features)
         in bind_err (subscript MODIFIER_WEIGHTS ''job_stability'') (\<lambda>w.
         let modifiers = AList.update ''job_stability''
                           ((0.5 - job_score) * w * 2) modifiers;
             lifestyle_score = lifestyle_stability_score (lifestyle features)
         in bind_err (subscript MODIFIER_WEIGHTS ''lifestyle_stability'') (\<lambda>w.
         let modifiers = AList.update ''lifestyle_stability''
                           ((0.5 - lifestyle_score) * w * 2) modifiers;
             alignment_score = income_lifestyle_alignment (lifestyle features)
         in bind_err (subscript MODIFIER_WEIGHTS ''income_lifestyle_alignment'') (\<lambda>w.
         let modifiers = AList.update ''income_lifestyle_alignment''
                           ((0.5 - alignment_score) * w * 2) modifiers;
             social_score = social_support_score (social features)
         in bind_err (subscript MODIFIER_WEIGHTS ''social_support'') (\<lambda>w.
         let modifiers = AList.update ''social_support''
                           ((0.5 - social_score) * w * 2) modifiers;
             community_score = community_rootedness_score (social features)
         in bind_err (subscript MODIFIER_WEIGHTS ''community_rootedness'') (\<lambda>w.
         let modifiers = AList.update ''community_rootedness''
                           ((0.5 - community_score) * w * 2) modifiers;
             relationship_score = relationship_stability_score (social features)
         in bind_err (subscript MODIFIER_WEIGHTS ''relationship_stability'') (\<lambda>w.
         let modifiers = AList.update ''relationship_stability''
                           ((0.5 - relationship_score) * w * 2) modifiers;
             modifiers = (if gambling_indicators (lifestyle features)
                          then AList.update ''gambling_flag'' 3.0 modifiers else modifiers);
             modifiers = (if substance_use_indicators (lifestyle features)
                          then AList.update ''substance_flag'' 2.0 modifiers else modifiers);
             modifiers = (if frequent_job_changes (professional features)
                          then AList.update ''job_hopping_flag'' 1.5 modifiers else modifiers);
             modifiers = (if social_isolation_indicators (social features)
                          then AList.update ''isolation_flag'' 1.0 modifiers else modifiers)
         in Inr modifiers))))))))"

subsection \<open>The report\<close>

text \<open>
  A risk or positive factor is a formatted label in the source; here it is the label's
  kind together with the number that the label prints. A factor from a modifier carries
  the modifier's key with its underscores replaced by spaces.
\<close>

datatype factor =
    Poor_credit_score int
  | Excellent_credit_score int
  | High_DTI_ratio real
  | Low_DTI_ratio real
  | High_LTV_ratio real
  | Conservative_LTV real
  | Short_employment_history real
  | Stable_employment real
  | Limited_reserves int
  | Strong_reserves int
  | Social_indicator string

record RiskReport =
  application_id :: string
  borrower_name :: string
  risk_score :: int
  risk_category :: string
  recommendation :: string
  base_score :: real
  credit_component :: real
  dti_component :: real
  ltv_component :: real
  employment_component :: real
  reserves_component :: real
  total_modifier_adjustment :: real
  modifier_breakdown :: "(string \<times> real) list"
  report_credit_score :: int
  dti_ratio :: real
  ltv_ratio :: real
  risk_factors :: "factor list"
  positive_factors :: "factor list"
  ai_analysis :: string

text \<open>
  The narrative comes from an external completion service. A configured client is the
  text that the service (or the handler of its failure) yields for the prompt, which is
  built from the five arguments of \<^verbatim>\<open>_generate_ai_analysis\<close>; no client is \<open>None\<close>.
\<close>

type_synonym client =
  "application \<Rightarrow> int \<Rightarrow> string \<Rightarrow> factor list \<Rightarrow> factor list \<Rightarrow> string"

definition generate_ai_analysis ::
  "client option \<Rightarrow> application \<Rightarrow> int \<Rightarrow> string \<Rightarrow> factor list \<Rightarrow> factor list \<Rightarrow> string" where
  "generate_ai_analysis cl application risk_score' risk_category' risk_factors' positive_factors' =
     (case cl of
        None \<Rightarrow> ''AI analysis unavailable - Keywords AI client not configured.''
      | Some respond \<Rightarrow>
          respond application risk_score' risk_category' risk_factors' positive_factors')"

text \<open>
  An optional feature group is \<^verbatim>\<open>None\<close> or an instance of its dataclass, and an
  instance is always true in a condition (the dataclasses define neither \<^verbatim>\<open>__bool__\<close>
  nor \<^verbatim>\<open>__len__\<close>). \<^verbatim>\<open>x or D()\<close> is \<^verbatim>\<open>x\<close> when it is true and the default otherwise.
\<close>

definition truthy :: "'a option \<Rightarrow> bool" where
  "truthy x = (case x of None \<Rightarrow> False | Some v \<Rightarrow> True)"

definition or_else :: "'a option \<Rightarrow> 'a \<Rightarrow> 'a" where
  "or_else x dflt = (case x of None \<Rightarrow> dflt | Some v \<Rightarrow> v)"

text \<open>The loop over the items of the modifier breakdown.\<close>

fun modifier_factors ::
  "(string \<times> real) list \<Rightarrow> factor list \<times> factor list \<Rightarrow> factor list \<times> factor list" where
  "modifier_factors [] acc = acc"
| "modifier_factors ((key, v) # items) (risk_factors', positive_factors') =
     modifier_factors items
       (if v > 1
        then (risk_factors' @ [Social_indicator (replace_char CHR ''_'' CHR '' '' key)],
              positive_factors')
        else if v < - 1
        then (risk_factors',
              positive_factors' @ [Social_indicator (replace_char CHR ''_'' CHR '' '' key)])
        else (risk_factors', positive_factors'))"

subsection \<open>Scoring an application\<close>

text \<open>
  Two blocks of \<^verbatim>\<open>score_application\<close> are definitions of their own here, with the
  statements of the source in their order: the block that determines the risk category
  and the recommendation from the rounded score, and the block that identifies the risk
  factors and the positive factors from the five metrics, starting from two empty lists.
\<close>

definition risk_category_and_recommendation :: "int \<Rightarrow> string \<times> string" where
  "risk_category_and_recommendation risk_score' =
     (if risk_score' \<le> 25 then (''Low'', ''Approve'')
      else if risk_score' \<le> 45 then (''Moderate'', ''Approve with Conditions'')
      else if risk_score' \<le> 65 then (''Elevated'', ''Manual Review Required'')
      else if risk_score' \<le> 80 then (''High'', ''Decline Recommended'')
      else (''Very High'', ''Decline''))"

definition identify_factors ::
  "int \<Rightarrow> real \<Rightarrow> real \<Rightarrow> real \<Rightarrow> int \<Rightarrow> factor list \<times> factor list" where
  "identify_factors credit_score' dti ltv employment_years reserves_months' =
     (let risk_factors' = [];
          positive_factors' = [];
          (risk_factors', positive_factors') =
            (if credit_score' < 620
             then (risk_factors' @ [Poor_credit_score credit_score'], positive_factors')
             else if credit_score' \<ge> 740
             then (risk_factors', positive_factors' @ [Excellent_credit_score credit_score'])
             else (risk_factors', positive_factors'));
          (risk_factors', positive_factors') =
            (if dti > 43
             then (risk_factors' @ [High_DTI_ratio dti], positive_factors')
             else if dti \<le> 28
             then (risk_factors', positive_factors' @ [Low_DTI_ratio dti])
             else (risk_factors', positive_factors'));
          (risk_factors', positive_factors') =
            (if ltv > 90
             then (risk_factors' @ [High_LTV_ratio ltv], positive_factors')
             else if ltv \<le> 80
             then (risk_factors', positive_factors' @ [Conservative_LTV ltv])
             else (risk_factors', positive_factors'));
          (risk_factors', positive_factors') =
            (if employment_years < 2
             then (risk_factors' @ [Short_employment_history employment_years],
                   positive_factors')
             else if employment_years \<ge> 5
             then (risk_factors', positive_factors' @ [Stable_employment employment_years])
             else (risk_factors', positive_factors'));
          (risk_factors', positive_factors') =
            (if reserves_months' < 3
             then (risk_factors' @ [Limited_reserves reserves_months'], positive_factors')
             else if reserves_months' \<ge> 6
             then (risk_factors', positive_factors' @ [Strong_reserves reserves_months'])
             else (risk_factors', positive_factors'))
      in (risk_factors', positive_factors'))"

definition score_application ::
  "client option \<Rightarrow> application \<Rightarrow> ProfessionalFeatures option \<Rightarrow> LifestyleFeatures option
     \<Rightarrow> SocialConnectednessFeatures option \<Rightarrow> error + RiskReport" where
  "score_application cl application professional_features lifestyle_features social_features =
     (let app_id' = dict_get (app_id application) ''NEW'';
          borrower = dict_get (app_borrower application) ''Unknown'';
          credit_score' = dict_get (app_credit_score application) 680;
          dti = dict_get (app_dti application) 36;
          ltv = dict_get (app_ltv application) 80;
          employment_years = dict_get (app_employment_years application) 2;
          reserves_months' = dict_get (app_reserves_months application) 3;
          credit_risk = calculate_credit_risk credit_score';
          dti_risk = calculate_dti_risk dti;
          ltv_risk = calculate_ltv_risk ltv;
          employment_risk = calculate_employment_risk employment_years;
          reserves_risk = calculate_reserves_risk reserves_months'
      in bind_err (subscript TRADITIONAL_WEIGHTS ''credit_score'') (\<lambda>w_credit.
         bind_err (subscript TRADITIONAL_WEIGHTS ''dti'') (\<lambda>w_dti.
         bind_err (subscript TRADITIONAL_WEIGHTS ''ltv'') (\<lambda>w_ltv.
         bind_err (subscript TRADITIONAL_WEIGHTS ''employment'') (\<lambda>w_employment.
         bind_err (subscript TRADITIONAL_WEIGHTS ''reserves'') (\<lambda>w_reserves.
         let base_score' = credit_risk * w_credit + dti_risk * w_dti + ltv_risk * w_ltv
                          + employment_risk * w_employment + reserves_risk * w_reserves
         in bind_err
              (if truthy professional_features \<or> truthy lifestyle_features
                  \<or> truthy social_features
               then
                 let traditional' = extract_traditional_features application;
                     combined = \<lparr>traditional = traditional',
                       professional = or_else professional_features default_ProfessionalFeatures,
                       lifestyle = or_else lifestyle_features default_LifestyleFeatures,
                       social = or_else social_features default_SocialConnectednessFeatures\<rparr>
                 in bind_err (calculate_modifiers combined) (\<lambda>modifier_breakdown'.
                    let total_modifier = py_sum (map snd modifier_breakdown');
                        total_modifier = max (- MAX_MODIFIER_ADJUSTMENT)
                                           (min MAX_MODIFIER_ADJUSTMENT total_modifier)
                    in Inr (modifier_breakdown', total_modifier))
               else Inr ([], 0.0))
              (\<lambda>(modifier_breakdown', total_modifier).
         let final_score = base_score' + total_modifier;
             final_score = max 0 (min 100 final_score);
             risk_score' = py_round final_score;
             (risk_category', recommendation') = risk_category_and_recommendation risk_score';
             (risk_factors', positive_factors') =
               identify_factors credit_score' dti ltv employment_years reserves_months';
             (risk_factors', positive_factors') =
               modifier_factors modifier_breakdown' (risk_factors', positive_factors');
             ai_analysis' = generate_ai_analysis cl application risk_score' risk_category'
                             risk_factors' positive_factors'
         in Inr \<lparr>application_id = app_id',
                 borrower_name = borrower,
                 risk_score = risk_score',
                 risk_category = risk_category',
                 recommendation = recommendation',
                 base_score = base_score',
                 credit_component = credit_risk,
                 dti_component = dti_risk,
                 ltv_component = ltv_risk,
                 employment_component = employment_risk,
                 reserves_component = reserves_risk,
                 total_modifier_adjustment = total_modifier,
                 modifier_breakdown = modifier_breakdown',
                 report_credit_score = credit_score',
                 dti_ratio = dti,
                 ltv_ratio = ltv,
                 risk_factors = risk_factors',
                 positive_factors = positive_factors',
                 ai_analysis = ai_analysis'\<rparr>)))))))"

text \<open>A field of the report that a call returns; \<open>None\<close> when the call raises.\<close>

definition returned :: "error + 'r \<Rightarrow> ('r \<Rightarrow> 'f) \<Rightarrow> 'f option" where
  "returned res field = (case res of Inl e \<Rightarrow> None | Inr r \<Rightarrow> Some (field r))"

section \<open>Inputs from the source and closed forms\<close>

text \<open>
  The empty dictionary, and the fourth entry of \<^verbatim>\<open>TEST_CASES\<close> (Robert Blake). The
  entry's keys \<^verbatim>\<open>status\<close>, \<^verbatim>\<open>current_risk_score\<close> and \<^verbatim>\<open>monthly_debts\<close> are read by no
  function of the scorer and have no field in the record.
\<close>

definition empty_application :: application where
  "empty_application =
     \<lparr>app_id = None, app_borrower = None, app_credit_score = None, app_dti = None,
      app_ltv = None, app_employment_years = None, app_reserves_months = None,
      app_credit_history_years = None, app_annual_income = None,
      app_employment_length_months = None, app_is_self_employed = None,
      app_income_verified = None, app_monthly_debt_payments = None,
      app_debt_to_income_ratio = None, app_loan_amount = None, app_property_value = None,
      app_loan_to_value_ratio = None, app_loan_purpose = None, app_property_type = None,
      app_is_primary_residence = None, app_total_assets = None, app_liquid_assets = None,
      app_loan_type = None, app_property_address = None\<rparr>"

definition TEST_CASE_robert_blake :: application where
  "TEST_CASE_robert_blake =
     empty_application
       \<lparr>app_id := Some ''LN-2024-08469'',
        app_borrower := Some ''Robert Blake'',
        app_loan_type := Some ''30-Year Fixed Conventional'',
        app_loan_amount := Some 2150000,
        app_property_value := Some 2250000,
        app_ltv := Some 95.6,
        app_property_address := Some ''456 Pine Ridge Way, Seattle, WA'',
        app_credit_score := Some 580,
        app_annual_income := Some 320000,
        app_dti := Some 48,
        app_employment_years := Some 1,
        app_reserves_months := Some 1\<rparr>"

text \<open>
  The entries that \<^verbatim>\<open>_calculate_modifiers\<close> returns for the three feature groups of
  its argument, written as one list; the lemma \<open>calculate_modifiers_Inr\<close> below proves
  that the function returns this list.
\<close>

definition modifier_list ::
  "ProfessionalFeatures \<Rightarrow> LifestyleFeatures \<Rightarrow> SocialConnectednessFeatures
     \<Rightarrow> (string \<times> real) list" where
  "modifier_list p l s =
     [(''professional_credibility'',
         (0.5 - professional_credibility_score p) * 2 * 2),
      (''job_stability'', (0.5 - job_stability_score p) * 2 * 2),
      (''lifestyle_stability'', (0.5 - lifestyle_stability_score l) * 1.5 * 2),
      (''income_lifestyle_alignment'',
         (0.5 - income_lifestyle_alignment l) * 1.5 * 2),
      (''social_support'', (0.5 - social_support_score s) * 1 * 2),
      (''community_rootedness'', (0.5 - community_rootedness_score s) * 1 * 2),
      (''relationship_stability'',
         (0.5 - relationship_stability_score s) * 1 * 2)]
     @ (if gambling_indicators l then [(''gambling_flag'', 3)] else [])
     @ (if substance_use_indicators l then [(''substance_flag'', 2)] else [])
     @ (if frequent_job_changes p then [(''job_hopping_flag'', 1.5)] else [])
     @ (if social_isolation_indicators s then [(''isolation_flag'', 1)] else [])"

section \<open>Properties of the components\<close>

lemma credit_risk_le_100_iff:
  "calculate_credit_risk s \<le> 100 \<longleftrightarrow> 79 \<le> s"
  unfolding calculate_credit_risk_def by auto

lemma dti_risk_le_90: "calculate_dti_risk d \<le> 90"
  unfolding calculate_dti_risk_def by auto

lemma ltv_risk_le_85: "calculate_ltv_risk l \<le> 85"
  unfolding calculate_ltv_risk_def by auto

lemma employment_risk_le_100_iff:
  "calculate_employment_risk y \<le> 100 \<longleftrightarrow> - 2 \<le> y"
  unfolding calculate_employment_risk_def by auto

lemma reserves_risk_le_100_iff:
  "calculate_reserves_risk m \<le> 100 \<longleftrightarrow> - 1 \<le> m"
  unfolding calculate_reserves_risk_def by (auto simp: max_def)

text \<open>
  C3 (as stated in the specification): a credit score of exactly 800 would give the
  credit component 5.0. The code gives 10 there; the statement below refutes the claim
  at that input.
\<close>

theorem credit_risk_800_not_5: "calculate_credit_risk 800 \<noteq> 5"
  by (simp add: calculate_credit_risk_def)

text \<open>
  C3 (amended): at a credit score of exactly 800 the credit component is exactly 10,
  the upper end of the documented 5-10 band of the scores 800-850.
\<close>

theorem credit_risk_800: "calculate_credit_risk 800 = 10"
  by (simp add: calculate_credit_risk_def)

lemma credit_risk_850: "calculate_credit_risk 850 = 5"
  by (simp add: calculate_credit_risk_def)

text \<open>
  C2: for credit scores s1 \<le> s2 in [300, 850] the credit component at s1 is at least
  the component at s2. The code breaks this at the band boundary 739/740, where the
  component rises from 20 to 20.03 (and again at 669/670, from 35 to 35.18).
\<close>

theorem credit_risk_not_monotone_739_740:
  "(739::int) \<le> 740 \<and> calculate_credit_risk 739 = 20 \<and> calculate_credit_risk 740 = 20.03
     \<and> \<not> calculate_credit_risk 739 \<ge> calculate_credit_risk 740"
  by (simp add: calculate_credit_risk_def)

lemma credit_risk_not_monotone_669_670:
  "calculate_credit_risk 669 = 35 \<and> calculate_credit_risk 670 = 35.18"
  by (simp add: calculate_credit_risk_def)

lemma credit_risk_antimono_in_band:
  assumes "s1 \<le> s2"
    and "(800 \<le> s1) \<or> (740 \<le> s1 \<and> s2 < 800) \<or> (670 \<le> s1 \<and> s2 < 740)
         \<or> (580 \<le> s1 \<and> s2 < 670) \<or> s2 < 580"
  shows "calculate_credit_risk s2 \<le> calculate_credit_risk s1"
  using assms unfolding calculate_credit_risk_def by auto

text \<open>
  C4 (as stated in the specification): every one of the five components stays at or
  below 100 for every numeric input. The credit component at score 0 and the employment
  component at -5 years exceed 100.
\<close>

theorem components_exceed_100:
  "\<not> (calculate_credit_risk 0 \<le> 100 \<and> calculate_dti_risk 1000 \<le> 100
      \<and> calculate_ltv_risk 1000 \<le> 100 \<and> calculate_employment_risk (- 5) \<le> 100
      \<and> calculate_reserves_risk (- 1) \<le> 100)"
  by (simp add: calculate_credit_risk_def)

lemma extreme_component_values:
  "calculate_credit_risk 0 = 107.11 \<and> calculate_employment_risk (- 5) = 145
     \<and> calculate_reserves_risk (- 1) = 90 \<and> calculate_reserves_risk (- 2) = 105"
  by (simp add: calculate_credit_risk_def calculate_employment_risk_def
        calculate_reserves_risk_def)

text \<open>
  C4 (amended): the DTI and LTV components are capped and never exceed 90 and 85, for
  any input. The credit, employment and reserves components have no cap: each stays at
  or below 100 exactly when its input is not below 79 (credit score), -2 (years) and
  -1 (months), so in particular on the documented domains (credit score from 300,
  years and months from 0).
\<close>

theorem components_at_most_100:
  "calculate_dti_risk d \<le> 90 \<and> calculate_ltv_risk l \<le> 85
     \<and> (calculate_credit_risk s \<le> 100 \<longleftrightarrow> 79 \<le> s)
     \<and> (calculate_employment_risk y \<le> 100 \<longleftrightarrow> - 2 \<le> y)
     \<and> (calculate_reserves_risk m \<le> 100 \<longleftrightarrow> - 1 \<le> m)"
  using dti_risk_le_90 ltv_risk_le_85 credit_risk_le_100_iff employment_risk_le_100_iff
    reserves_risk_le_100_iff by blast

text \<open>
  C4, witness: the caps at DTI and LTV 1000, the three uncapped components at the lower
  ends of their documented domains, and the credit component above 100 at score 0.
\<close>

theorem components_at_most_100_witness:
  "calculate_dti_risk 1000 \<le> 90 \<and> calculate_ltv_risk 1000 \<le> 85
     \<and> calculate_credit_risk 300 \<le> 100 \<and> calculate_employment_risk 0 \<le> 100
     \<and> calculate_reserves_risk 0 \<le> 100 \<and> \<not> calculate_credit_risk 0 \<le> 100"
  using components_at_most_100 [of 1000 1000 300 0 0] components_at_most_100 [of 0 0 0 0 0]
  by simp


section \<open>The scorer: helper lemmas\<close>

lemma TRADITIONAL_WEIGHTS_subscript:
  "subscript TRADITIONAL_WEIGHTS ''credit_score'' = Inr 0.35"
  "subscript TRADITIONAL_WEIGHTS ''dti'' = Inr 0.25"
  "subscript TRADITIONAL_WEIGHTS ''ltv'' = Inr 0.20"
  "subscript TRADITIONAL_WEIGHTS ''employment'' = Inr 0.10"
  "subscript TRADITIONAL_WEIGHTS ''reserves'' = Inr 0.10"
  by (simp_all add: subscript_def TRADITIONAL_WEIGHTS_def)

lemma MODIFIER_WEIGHTS_subscript:
  "subscript MODIFIER_WEIGHTS ''professional_credibility'' = Inr 2"
  "subscript MODIFIER_WEIGHTS ''job_stability'' = Inr 2"
  "subscript MODIFIER_WEIGHTS ''lifestyle_stability'' = Inr 1.5"
  "subscript MODIFIER_WEIGHTS ''income_lifestyle_alignment'' = Inr 1.5"
  "subscript MODIFIER_WEIGHTS ''social_support'' = Inr 1"
  "subscript MODIFIER_WEIGHTS ''community_rootedness'' = Inr 1"
  "subscript MODIFIER_WEIGHTS ''relationship_stability'' = Inr 1"
  by (simp_all add: subscript_def MODIFIER_WEIGHTS_def)

lemma bind_err_Inr: "bind_err (Inr v) f = f v"
  by (simp add: bind_err_def)

lemma calculate_modifiers_Inr:
  "calculate_modifiers f = Inr (modifier_list (professional f) (lifestyle f) (social f))"
  unfolding calculate_modifiers_def modifier_list_def Let_def
  by (simp add: MODIFIER_WEIGHTS_subscript bind_err_Inr)

lemma py_round_range:
  assumes "0 \<le> x" and "x \<le> 100"
  shows "0 \<le> py_round x \<and> py_round x \<le> 100"
proof -
  have f0: "0 \<le> \<lfloor>x\<rfloor>" using assms(1) by simp
  have f100: "\<lfloor>x\<rfloor> \<le> 100" using assms(2) by (simp add: floor_le_iff)
  have up: "\<lfloor>x\<rfloor> + 1 \<le> 100" if "real_of_int \<lfloor>x\<rfloor> < x"
  proof -
    from that assms(2) have "real_of_int \<lfloor>x\<rfloor> < 100" by linarith
    then show ?thesis by linarith
  qed
  show ?thesis
    unfolding py_round_def Let_def using f0 f100 up by (auto simp: not_less)
qed

lemma score_application_eq:
  "score_application cl a pf lf sf =
     (let cs = dict_get (app_credit_score a) 680;
          dti = dict_get (app_dti a) 36;
          ltv = dict_get (app_ltv a) 80;
          ey = dict_get (app_employment_years a) 2;
          rm = dict_get (app_reserves_months a) 3;
          base = calculate_credit_risk cs * 0.35 + calculate_dti_risk dti * 0.25
                 + calculate_ltv_risk ltv * 0.20 + calculate_employment_risk ey * 0.10
                 + calculate_reserves_risk rm * 0.10;
          mb = (if truthy pf \<or> truthy lf \<or> truthy sf
                then modifier_list (or_else pf default_ProfessionalFeatures)
                       (or_else lf default_LifestyleFeatures)
                       (or_else sf default_SocialConnectednessFeatures)
                else []);
          tm = (if truthy pf \<or> truthy lf \<or> truthy sf
                then max (- 10) (min 10 (py_sum (map snd mb))) else 0);
          rs = py_round (max 0 (min 100 (base + tm)));
          cat = risk_category_and_recommendation rs;
          fs = modifier_factors mb (identify_factors cs dti ltv ey rm)
      in Inr \<lparr>application_id = dict_get (app_id a) ''NEW'',
              borrower_name = dict_get (app_borrower a) ''Unknown'',
              risk_score = rs, risk_category = fst cat, recommendation = snd cat,
              base_score = base,
              credit_component = calculate_credit_risk cs,
              dti_component = calculate_dti_risk dti,
              ltv_component = calculate_ltv_risk ltv,
              employment_component = calculate_employment_risk ey,
              reserves_component = calculate_reserves_risk rm,
              total_modifier_adjustment = tm, modifier_breakdown = mb,
              report_credit_score = cs, dti_ratio = dti, ltv_ratio = ltv,
              risk_factors = fst fs, positive_factors = snd fs,
              ai_analysis = generate_ai_analysis cl a rs (fst cat) (fst fs) (snd fs)\<rparr>)"
proof (cases "truthy pf \<or> truthy lf \<or> truthy sf")
  case True
  then show ?thesis
    unfolding score_application_def Let_def
    by (simp add: TRADITIONAL_WEIGHTS_subscript bind_err_Inr calculate_modifiers_Inr
          split_def MAX_MODIFIER_ADJUSTMENT_def split del: if_split)
next
  case False
  then show ?thesis
    unfolding score_application_def Let_def
    by (simp add: TRADITIONAL_WEIGHTS_subscript bind_err_Inr split_def
          split del: if_split)
qed

lemma score_application_fields:
  "\<exists>r. score_application cl a pf lf sf = Inr r
     \<and> report_credit_score r = dict_get (app_credit_score a) 680
     \<and> dti_ratio r = dict_get (app_dti a) 36
     \<and> ltv_ratio r = dict_get (app_ltv a) 80
     \<and> credit_component r = calculate_credit_risk (dict_get (app_credit_score a) 680)
     \<and> dti_component r = calculate_dti_risk (dict_get (app_dti a) 36)
     \<and> ltv_component r = calculate_ltv_risk (dict_get (app_ltv a) 80)
     \<and> employment_component r = calculate_employment_risk (dict_get (app_employment_years a) 2)
     \<and> reserves_component r = calculate_reserves_risk (dict_get (app_reserves_months a) 3)
     \<and> base_score r = credit_component r * 0.35 + dti_component r * 0.25
           + ltv_component r * 0.20 + employment_component r * 0.10
           + reserves_component r * 0.10
     \<and> risk_score r = py_round (max 0 (min 100 (base_score r + total_modifier_adjustment r)))
     \<and> (risk_category r, recommendation r) = risk_category_and_recommendation (risk_score r)
     \<and> - 10 \<le> total_modifier_adjustment r \<and> total_modifier_adjustment r \<le> 10"
  unfolding score_application_eq Let_def
  by (simp split del: if_split) (simp)

section \<open>Scoring the test case of Robert Blake\<close>

lemma robert_blake_report:
  assumes "app_credit_score a = Some 580" and "app_dti a = Some 48"
    and "app_ltv a = Some 95.6" and "app_employment_years a = Some 1"
    and "app_reserves_months a = Some 1"
  shows "\<exists>r. score_application cl a None None None = Inr r
           \<and> credit_component r = 54.58 \<and> dti_component r = 64.3
           \<and> ltv_component r = 67.4 \<and> employment_component r = 55
           \<and> reserves_component r = 60 \<and> base_score r = 60.158
           \<and> total_modifier_adjustment r = 0 \<and> risk_score r = 60
           \<and> risk_category r = ''Elevated''
           \<and> recommendation r = ''Manual Review Required''"
  unfolding score_application_eq Let_def
  by (simp add: assms dict_get_def truthy_def calculate_credit_risk_def
        calculate_dti_risk_def calculate_ltv_risk_def calculate_employment_risk_def
        calculate_reserves_risk_def py_round_def Let_def
        risk_category_and_recommendation_def)

lemma robert_blake_keys:
  "app_credit_score TEST_CASE_robert_blake = Some 580"
  "app_dti TEST_CASE_robert_blake = Some 48"
  "app_ltv TEST_CASE_robert_blake = Some 95.6"
  "app_employment_years TEST_CASE_robert_blake = Some 1"
  "app_reserves_months TEST_CASE_robert_blake = Some 1"
  by (simp_all add: TEST_CASE_robert_blake_def empty_application_def)

text \<open>
  C1 (as stated in the specification): for the application with credit score 580, DTI 48,
  LTV 95.6, 1 year of employment and 1 month of reserves, and no feature group, the
  report has the category "Very High", the recommendation "Decline" and a score in the
  80s. The statement below refutes this on the Robert Blake entry of the test cases.
\<close>

theorem robert_blake_not_very_high:
  "\<not> (returned (score_application None TEST_CASE_robert_blake None None None) risk_category
         = Some ''Very High''
       \<and> returned (score_application None TEST_CASE_robert_blake None None None) recommendation
         = Some ''Decline''
       \<and> returned (score_application None TEST_CASE_robert_blake None None None) risk_score
         \<in> Some ` {80..89})"
proof -
  from robert_blake_report [OF robert_blake_keys, of None]
  obtain r where "score_application None TEST_CASE_robert_blake None None None = Inr r"
    and "risk_category r = ''Elevated''" by blast
  then show ?thesis by (simp add: returned_def)
qed

text \<open>
  C1 (amended): for every application with credit score 580, DTI 48, LTV 95.6, 1 year of
  employment and 1 month of reserves, and no feature group, the base score is 60.158 and
  the report has the risk score 60, the category "Elevated" and the recommendation
  "Manual Review Required".
\<close>

theorem robert_blake_elevated:
  assumes "app_credit_score a = Some 580" and "app_dti a = Some 48"
    and "app_ltv a = Some 95.6" and "app_employment_years a = Some 1"
    and "app_reserves_months a = Some 1"
  shows "returned (score_application cl a None None None) risk_score = Some 60
       \<and> returned (score_application cl a None None None) risk_category = Some ''Elevated''
       \<and> returned (score_application cl a None None None) recommendation
           = Some ''Manual Review Required''
       \<and> returned (score_application cl a None None None) base_score = Some 60.158"
proof -
  from robert_blake_report [OF assms, of cl]
  obtain r where "score_application cl a None None None = Inr r"
    and "base_score r = 60.158" and "risk_score r = 60"
    and "risk_category r = ''Elevated''"
    and "recommendation r = ''Manual Review Required''" by blast
  then show ?thesis by (simp add: returned_def)
qed

text \<open>C1, witness: the Robert Blake entry of the test cases, without a client.\<close>

theorem robert_blake_elevated_witness:
  "returned (score_application None TEST_CASE_robert_blake None None None) risk_score = Some 60
   \<and> returned (score_application None TEST_CASE_robert_blake None None None) risk_category
       = Some ''Elevated''
   \<and> returned (score_application None TEST_CASE_robert_blake None None None) recommendation
       = Some ''Manual Review Required''"
  using robert_blake_elevated [OF robert_blake_keys, of None] by simp

section \<open>The final score and the modifier adjustment\<close>

lemma returned_Inr: "returned (Inr r) field = Some (field r)"
  by (simp add: returned_def)

text \<open>
  C5: for every application and every combination of supplied feature groups, the call
  returns a report whose risk score is the rounding of the base score plus the total
  modifier, clamped to [0, 100], and so is an integer between 0 and 100.
\<close>

theorem risk_score_rounded_clamped:
  "\<exists>r. score_application cl a pf lf sf = Inr r
     \<and> risk_score r
         = py_round (max 0 (min 100 (base_score r + total_modifier_adjustment r)))
     \<and> 0 \<le> risk_score r \<and> risk_score r \<le> 100"
proof -
  obtain r where r: "score_application cl a pf lf sf = Inr r"
    and rs: "risk_score r
      = py_round (max 0 (min 100 (base_score r + total_modifier_adjustment r)))"
    using score_application_fields [of cl a pf lf sf] by blast
  have "0 \<le> py_round (max 0 (min 100 (base_score r + total_modifier_adjustment r)))
      \<and> py_round (max 0 (min 100 (base_score r + total_modifier_adjustment r))) \<le> 100"
    by (rule py_round_range) simp_all
  with r rs show ?thesis by simp
qed

lemma pathological_report:
  "returned (score_application None
       (empty_application\<lparr>app_credit_score := Some 0, app_dti := Some 1000,
          app_employment_years := Some (- 5)\<rparr>) None None None) risk_score = Some 84"
  unfolding score_application_eq Let_def
  by (simp add: returned_def empty_application_def dict_get_def truthy_def
        calculate_credit_risk_def calculate_dti_risk_def calculate_ltv_risk_def
        calculate_employment_risk_def calculate_reserves_risk_def py_round_def Let_def)

text \<open>
  C5, witness: the pathological application with credit score 0, DTI 1000 and -5 years
  of employment is scored 84.
\<close>

theorem risk_score_rounded_clamped_witness:
  "returned (score_application None
       (empty_application\<lparr>app_credit_score := Some 0, app_dti := Some 1000,
          app_employment_years := Some (- 5)\<rparr>) None None None) risk_score = Some 84
   \<and> (0::int) \<le> 84 \<and> (84::int) \<le> 100"
  using risk_score_rounded_clamped [of None
      "empty_application\<lparr>app_credit_score := Some 0, app_dti := Some 1000,
          app_employment_years := Some (- 5)\<rparr>" None None None]
    pathological_report
  by simp

text \<open>
  C6: for every combination of feature groups, the total modifier adjustment of the
  returned report lies between -10 and 10.
\<close>

theorem total_modifier_bounded:
  "\<exists>r. score_application cl a pf lf sf = Inr r
     \<and> - 10 \<le> total_modifier_adjustment r \<and> total_modifier_adjustment r \<le> 10"
  using score_application_fields [of cl a pf lf sf] by blast

lemma extreme_modifier_report:
  "returned (score_application None empty_application
       (Some (default_ProfessionalFeatures\<lparr>job_stability_score := - 100,
          professional_credibility_score := - 100\<rparr>)) None None)
     total_modifier_adjustment = Some 10"
  unfolding score_application_eq Let_def
  by (simp add: returned_def truthy_def or_else_def modifier_list_def py_sum_def
        default_ProfessionalFeatures_def default_LifestyleFeatures_def
        default_SocialConnectednessFeatures_def)

text \<open>
  C6, witness: derived scores of -100 give modifier terms of 402 each, and the
  adjustment of the report is the cap 10.
\<close>

theorem total_modifier_bounded_witness:
  "returned (score_application None empty_application
       (Some (default_ProfessionalFeatures\<lparr>job_stability_score := - 100,
          professional_credibility_score := - 100\<rparr>)) None None)
     total_modifier_adjustment = Some 10 \<and> - 10 \<le> (10::real) \<and> (10::real) \<le> 10"
  using total_modifier_bounded [of None empty_application
      "Some (default_ProfessionalFeatures\<lparr>job_stability_score := - 100,
          professional_credibility_score := - 100\<rparr>)" None None]
    extreme_modifier_report
  by simp

text \<open>
  C8: when none of the three feature groups is supplied, the returned report has the
  total modifier adjustment 0 and an empty modifier breakdown.
\<close>

theorem no_feature_groups_no_modifier:
  "returned (score_application cl a None None None) total_modifier_adjustment = Some 0
   \<and> returned (score_application cl a None None None) modifier_breakdown = Some []"
  unfolding score_application_eq Let_def
  by (simp add: returned_def truthy_def)

text \<open>
  C8, witness: the Robert Blake entry of the test cases, scored without feature groups.
\<close>

theorem no_feature_groups_no_modifier_witness:
  "returned (score_application None TEST_CASE_robert_blake None None None)
      total_modifier_adjustment = Some 0
   \<and> returned (score_application None TEST_CASE_robert_blake None None None)
      modifier_breakdown = Some []"
  using no_feature_groups_no_modifier [of None TEST_CASE_robert_blake] by simp

section \<open>The modifier terms\<close>

lemma modifier_list_lookup:
  "map_of (modifier_list p l s) ''professional_credibility''
     = Some ((0.5 - professional_credibility_score p) * 2.0 * 2)"
  "map_of (modifier_list p l s) ''job_stability''
     = Some ((0.5 - job_stability_score p) * 2.0 * 2)"
  "map_of (modifier_list p l s) ''lifestyle_stability''
     = Some ((0.5 - lifestyle_stability_score l) * 1.5 * 2)"
  "map_of (modifier_list p l s) ''income_lifestyle_alignment''
     = Some ((0.5 - income_lifestyle_alignment l) * 1.5 * 2)"
  "map_of (modifier_list p l s) ''social_support''
     = Some ((0.5 - social_support_score s) * 1.0 * 2)"
  "map_of (modifier_list p l s) ''community_rootedness''
     = Some ((0.5 - community_rootedness_score s) * 1.0 * 2)"
  "map_of (modifier_list p l s) ''relationship_stability''
     = Some ((0.5 - relationship_stability_score s) * 1.0 * 2)"
  by (simp_all add: modifier_list_def)

lemma modifier_list_flags:
  "map_of (modifier_list p l s) ''gambling_flag''
     = (if gambling_indicators l then Some 3.0 else None)"
  "map_of (modifier_list p l s) ''substance_flag''
     = (if substance_use_indicators l then Some 2.0 else None)"
  "map_of (modifier_list p l s) ''job_hopping_flag''
     = (if frequent_job_changes p then Some 1.5 else None)"
  "map_of (modifier_list p l s) ''isolation_flag''
     = (if social_isolation_indicators s then Some 1.0 else None)"
  by (simp_all add: modifier_list_def map_add_def)

lemma gambling_only_report:
  assumes "professional_credibility_score p = 0.5" and "job_stability_score p = 0.5"
    and "lifestyle_stability_score l = 0.5" and "income_lifestyle_alignment l = 0.5"
    and "social_support_score s = 0.5" and "community_rootedness_score s = 0.5"
    and "relationship_stability_score s = 0.5"
    and "gambling_indicators l" and "\<not> substance_use_indicators l"
    and "\<not> frequent_job_changes p" and "\<not> social_isolation_indicators s"
  shows "\<exists>r. score_application cl a (Some p) (Some l) (Some s) = Inr r
           \<and> map_of (modifier_breakdown r) ''gambling_flag'' = Some 3.0
           \<and> total_modifier_adjustment r = 3.0
           \<and> risk_score r = py_round (max 0 (min 100 (base_score r + 3.0)))"
  unfolding score_application_eq Let_def
  by (simp add: assms truthy_def or_else_def modifier_list_def py_sum_def)


text \<open>
  C7: the modifier computation returns, for each of the seven derived scores s with its
  weight w (2.0, 2.0, 1.5, 1.5, 1.0, 1.0, 1.0), the term (0.5 - s) * w * 2 under the
  score's key, and the flat penalties 3.0, 2.0, 1.5 and 1.0 under the keys of the flags
  that are set (and no entry for a flag that is not set). When all derived scores are
  exactly 0.5 and only the gambling flag is set, the report's breakdown holds
  gambling_flag = 3.0, the total modifier adjustment is 3.0, and it is added to the
  base score before clamping and rounding.
\<close>

theorem modifier_terms_and_flags:
  "(\<exists>m. calculate_modifiers f = Inr m
      \<and> map_of m ''professional_credibility''
          = Some ((0.5 - professional_credibility_score (professional f)) * 2.0 * 2)
      \<and> map_of m ''job_stability''
          = Some ((0.5 - job_stability_score (professional f)) * 2.0 * 2)
      \<and> map_of m ''lifestyle_stability''
          = Some ((0.5 - lifestyle_stability_score (lifestyle f)) * 1.5 * 2)
      \<and> map_of m ''income_lifestyle_alignment''
          = Some ((0.5 - income_lifestyle_alignment (lifestyle f)) * 1.5 * 2)
      \<and> map_of m ''social_support''
          = Some ((0.5 - social_support_score (social f)) * 1.0 * 2)
      \<and> map_of m ''community_rootedness''
          = Some ((0.5 - community_rootedness_score (social f)) * 1.0 * 2)
      \<and> map_of m ''relationship_stability''
          = Some ((0.5 - relationship_stability_score (social f)) * 1.0 * 2)
      \<and> map_of m ''gambling_flag''
          = (if gambling_indicators (lifestyle f) then Some 3.0 else None)
      \<and> map_of m ''substance_flag''
          = (if substance_use_indicators (lifestyle f) then Some 2.0 else None)
      \<and> map_of m ''job_hopping_flag''
          = (if frequent_job_changes (professional f) then Some 1.5 else None)
      \<and> map_of m ''isolation_flag''
          = (if social_isolation_indicators (social f) then Some 1.0 else None))
   \<and> (professional_credibility_score (professional f) = 0.5
        \<and> job_stability_score (professional f) = 0.5
        \<and> lifestyle_stability_score (lifestyle f) = 0.5
        \<and> income_lifestyle_alignment (lifestyle f) = 0.5
        \<and> social_support_score (social f) = 0.5
        \<and> community_rootedness_score (social f) = 0.5
        \<and> relationship_stability_score (social f) = 0.5
        \<and> gambling_indicators (lifestyle f)
        \<and> \<not> substance_use_indicators (lifestyle f)
        \<and> \<not> frequent_job_changes (professional f)
        \<and> \<not> social_isolation_indicators (social f)
      \<longrightarrow> (\<exists>r. score_application cl a (Some (professional f)) (Some (lifestyle f))
                   (Some (social f)) = Inr r
              \<and> map_of (modifier_breakdown r) ''gambling_flag'' = Some 3.0
              \<and> total_modifier_adjustment r = 3.0
              \<and> risk_score r = py_round (max 0 (min 100 (base_score r + 3.0)))))"
proof (intro conjI impI)
  show "\<exists>m. calculate_modifiers f = Inr m
      \<and> map_of m ''professional_credibility''
          = Some ((0.5 - professional_credibility_score (professional f)) * 2.0 * 2)
      \<and> map_of m ''job_stability''
          = Some ((0.5 - job_stability_score (professional f)) * 2.0 * 2)
      \<and> map_of m ''lifestyle_stability''
          = Some ((0.5 - lifestyle_stability_score (lifestyle f)) * 1.5 * 2)
      \<and> map_of m ''income_lifestyle_alignment''
          = Some ((0.5 - income_lifestyle_alignment (lifestyle f)) * 1.5 * 2)
      \<and> map_of m ''social_support''
          = Some ((0.5 - social_support_score (social f)) * 1.0 * 2)
      \<and> map_of m ''community_rootedness''
          = Some ((0.5 - community_rootedness_score (social f)) * 1.0 * 2)
      \<and> map_of m ''relationship_stability''
          = Some ((0.5 - relationship_stability_score (social f)) * 1.0 * 2)
      \<and> map_of m ''gambling_flag''
          = (if gambling_indicators (lifestyle f) then Some 3.0 else None)
      \<and> map_of m ''substance_flag''
          = (if substance_use_indicators (lifestyle f) then Some 2.0 else None)
      \<and> map_of m ''job_hopping_flag''
          = (if frequent_job_changes (professional f) then Some 1.5 else None)
      \<and> map_of m ''isolation_flag''
          = (if social_isolation_indicators (social f) then Some 1.0 else None)"
    using modifier_list_lookup [of "professional f" "lifestyle f" "social f"]
      modifier_list_flags [of "professional f" "lifestyle f" "social f"]
      calculate_modifiers_Inr [of f] by blast
next
  assume "professional_credibility_score (professional f) = 0.5
        \<and> job_stability_score (professional f) = 0.5
        \<and> lifestyle_stability_score (lifestyle f) = 0.5
        \<and> income_lifestyle_alignment (lifestyle f) = 0.5
        \<and> social_support_score (social f) = 0.5
        \<and> community_rootedness_score (social f) = 0.5
        \<and> relationship_stability_score (social f) = 0.5
        \<and> gambling_indicators (lifestyle f)
        \<and> \<not> substance_use_indicators (lifestyle f)
        \<and> \<not> frequent_job_changes (professional f)
        \<and> \<not> social_isolation_indicators (social f)"
  then show "\<exists>r. score_application cl a (Some (professional f)) (Some (lifestyle f))
                   (Some (social f)) = Inr r
              \<and> map_of (modifier_breakdown r) ''gambling_flag'' = Some 3.0
              \<and> total_modifier_adjustment r = 3.0
              \<and> risk_score r = py_round (max 0 (min 100 (base_score r + 3.0)))"
    by (intro gambling_only_report) simp_all
qed

lemma gambling_features_satisfy:
  "professional_credibility_score default_ProfessionalFeatures = 0.5
   \<and> job_stability_score default_ProfessionalFeatures = 0.5
   \<and> lifestyle_stability_score (default_LifestyleFeatures\<lparr>gambling_indicators := True\<rparr>) = 0.5
   \<and> income_lifestyle_alignment (default_LifestyleFeatures\<lparr>gambling_indicators := True\<rparr>) = 0.5
   \<and> social_support_score default_SocialConnectednessFeatures = 0.5
   \<and> community_rootedness_score default_SocialConnectednessFeatures = 0.5
   \<and> relationship_stability_score default_SocialConnectednessFeatures = 0.5
   \<and> gambling_indicators (default_LifestyleFeatures\<lparr>gambling_indicators := True\<rparr>)
   \<and> \<not> substance_use_indicators (default_LifestyleFeatures\<lparr>gambling_indicators := True\<rparr>)
   \<and> \<not> frequent_job_changes default_ProfessionalFeatures
   \<and> \<not> social_isolation_indicators default_SocialConnectednessFeatures"
  by (simp add: default_ProfessionalFeatures_def default_LifestyleFeatures_def
        default_SocialConnectednessFeatures_def)

text \<open>
  C7, witness: the default feature groups, whose derived scores are 0.5, with the
  gambling flag set.
\<close>

theorem modifier_terms_and_flags_witness:
  "returned (score_application None empty_application (Some default_ProfessionalFeatures)
       (Some (default_LifestyleFeatures\<lparr>gambling_indicators := True\<rparr>))
       (Some default_SocialConnectednessFeatures)) total_modifier_adjustment = Some 3.0
   \<and> returned (score_application None empty_application (Some default_ProfessionalFeatures)
       (Some (default_LifestyleFeatures\<lparr>gambling_indicators := True\<rparr>))
       (Some default_SocialConnectednessFeatures))
       (\<lambda>r. map_of (modifier_breakdown r) ''gambling_flag'') = Some (Some 3.0)"
  using modifier_terms_and_flags [of
      "\<lparr>traditional = default_TraditionalFeatures,
        professional = default_ProfessionalFeatures,
        lifestyle = default_LifestyleFeatures\<lparr>gambling_indicators := True\<rparr>,
        social = default_SocialConnectednessFeatures\<rparr>" None empty_application]
    gambling_features_satisfy
  by (auto simp: returned_def)

section \<open>Derived scores of the feature groups\<close>

lemma INDUSTRY_STABILITY_default: "subscript INDUSTRY_STABILITY ''default'' = Inr 0.5"
  by (simp add: subscript_def INDUSTRY_STABILITY_def)

lemma job_stability_frame:
  "calculate_job_stability_score (f\<lparr>job_stability_score := x\<rparr>)
     = calculate_job_stability_score f"
  "calculate_job_stability_score (f\<lparr>professional_credibility_score := y\<rparr>)
     = calculate_job_stability_score f"
  unfolding calculate_job_stability_score_def Let_def by (simp_all split del: if_split cong: if_cong)

lemma professional_credibility_frame:
  "calculate_professional_credibility_score (f\<lparr>job_stability_score := x\<rparr>)
     = calculate_professional_credibility_score f"
  "calculate_professional_credibility_score (f\<lparr>professional_credibility_score := y\<rparr>)
     = calculate_professional_credibility_score f"
  unfolding calculate_professional_credibility_score_def Let_def by (simp_all split del: if_split cong: if_cong)

lemma lifestyle_stability_frame:
  "calculate_lifestyle_stability_score (l\<lparr>lifestyle_stability_score := x\<rparr>)
     = calculate_lifestyle_stability_score l"
  "calculate_lifestyle_stability_score (l\<lparr>income_lifestyle_alignment := y\<rparr>)
     = calculate_lifestyle_stability_score l"
  unfolding calculate_lifestyle_stability_score_def Let_def by (simp_all split del: if_split cong: if_cong)

lemma income_lifestyle_alignment_frame:
  "calculate_income_lifestyle_alignment (l\<lparr>lifestyle_stability_score := x\<rparr>)
     = calculate_income_lifestyle_alignment l"
  "calculate_income_lifestyle_alignment (l\<lparr>income_lifestyle_alignment := y\<rparr>)
     = calculate_income_lifestyle_alignment l"
  unfolding calculate_income_lifestyle_alignment_def Let_def by (simp_all split del: if_split cong: if_cong)

lemma social_support_frame:
  "calculate_social_support_score (s\<lparr>social_support_score := x\<rparr>)
     = calculate_social_support_score s"
  "calculate_social_support_score (s\<lparr>community_rootedness_score := y\<rparr>)
     = calculate_social_support_score s"
  "calculate_social_support_score (s\<lparr>relationship_stability_score := z\<rparr>)
     = calculate_social_support_score s"
  unfolding calculate_social_support_score_def Let_def by (simp_all split del: if_split cong: if_cong)

lemma community_rootedness_frame:
  "calculate_community_rootedness_score (s\<lparr>social_support_score := x\<rparr>)
     = calculate_community_rootedness_score s"
  "calculate_community_rootedness_score (s\<lparr>community_rootedness_score := y\<rparr>)
     = calculate_community_rootedness_score s"
  "calculate_community_rootedness_score (s\<lparr>relationship_stability_score := z\<rparr>)
     = calculate_community_rootedness_score s"
  unfolding calculate_community_rootedness_score_def Let_def by (simp_all split del: if_split cong: if_cong)

lemma relationship_stability_frame:
  "calculate_relationship_stability_score (s\<lparr>social_support_score := x\<rparr>)
     = calculate_relationship_stability_score s"
  "calculate_relationship_stability_score (s\<lparr>community_rootedness_score := y\<rparr>)
     = calculate_relationship_stability_score s"
  "calculate_relationship_stability_score (s\<lparr>relationship_stability_score := z\<rparr>)
     = calculate_relationship_stability_score s"
  unfolding calculate_relationship_stability_score_def Let_def by (simp_all split del: if_split cong: if_cong)

lemma build_professional_derived:
  "\<exists>p. build_professional_features px = Inr p
     \<and> job_stability_score p = calculate_job_stability_score p
     \<and> professional_credibility_score p = calculate_professional_credibility_score p"
  unfolding build_professional_features_def Let_def
  by (simp add: INDUSTRY_STABILITY_default bind_err_Inr job_stability_frame
        professional_credibility_frame split del: if_split)

lemma build_lifestyle_derived:
  "lifestyle_stability_score (build_lifestyle_features lx)
     = calculate_lifestyle_stability_score (build_lifestyle_features lx)
   \<and> income_lifestyle_alignment (build_lifestyle_features lx)
     = calculate_income_lifestyle_alignment (build_lifestyle_features lx)"
  unfolding build_lifestyle_features_def Let_def
  by (simp add: lifestyle_stability_frame income_lifestyle_alignment_frame
        split del: if_split)

lemma build_social_derived:
  "social_support_score (build_social_features sx)
     = calculate_social_support_score (build_social_features sx)
   \<and> community_rootedness_score (build_social_features sx)
     = calculate_community_rootedness_score (build_social_features sx)
   \<and> relationship_stability_score (build_social_features sx)
     = calculate_relationship_stability_score (build_social_features sx)"
  unfolding build_social_features_def Let_def
  by (simp add: social_support_frame community_rootedness_frame
        relationship_stability_frame split del: if_split)

lemma default_professional_credibility:
  "professional_credibility_score default_ProfessionalFeatures = 0.5"
  "calculate_professional_credibility_score default_ProfessionalFeatures = 0.225"
  by (simp_all add: default_ProfessionalFeatures_def
        calculate_professional_credibility_score_def)

text \<open>
  C9 (as stated in the specification): every feature group that the modifier computation
  consumes stores derived scores equal to the derived-score formulas on its own raw
  fields; in particular the stored professional credibility score of the all-defaults
  professional group equals the formula on its raw defaults. The statement below
  refutes this: the stored score is the declared default 0.5, the formula gives 0.225.
\<close>

theorem default_credibility_not_derived:
  "professional_credibility_score default_ProfessionalFeatures
     \<noteq> calculate_professional_credibility_score default_ProfessionalFeatures"
  by (simp add: default_professional_credibility)

text \<open>
  The scorer consumes such a group: when only the lifestyle group is supplied, the
  professional group is the all-defaults one and its credibility term is
  (0.5 - 0.5) * 2.0 * 2 = 0.
\<close>

lemma default_struct_consumed:
  "returned (score_application None empty_application None
       (Some default_LifestyleFeatures) None)
     (\<lambda>r. map_of (modifier_breakdown r) ''professional_credibility'') = Some (Some 0)"
  unfolding score_application_eq Let_def
  by (simp add: returned_def truthy_def or_else_def modifier_list_def
        default_ProfessionalFeatures_def default_LifestyleFeatures_def
        default_SocialConnectednessFeatures_def)

text \<open>
  C9 (amended): a feature group built by one of the three builders of the feature
  extractor stores, for each of its derived scores, the value of the derived-score
  formula on the group's own raw fields. A feature group constructed with the dataclass
  defaults stores 0.5 for each of its seven derived scores, whatever the formulas give
  on its raw fields.
\<close>

theorem derived_scores_of_built_features:
  "(\<exists>p. build_professional_features px = Inr p
      \<and> job_stability_score p = calculate_job_stability_score p
      \<and> professional_credibility_score p = calculate_professional_credibility_score p)
   \<and> lifestyle_stability_score (build_lifestyle_features lx)
       = calculate_lifestyle_stability_score (build_lifestyle_features lx)
   \<and> income_lifestyle_alignment (build_lifestyle_features lx)
       = calculate_income_lifestyle_alignment (build_lifestyle_features lx)
   \<and> social_support_score (build_social_features sx)
       = calculate_social_support_score (build_social_features sx)
   \<and> community_rootedness_score (build_social_features sx)
       = calculate_community_rootedness_score (build_social_features sx)
   \<and> relationship_stability_score (build_social_features sx)
       = calculate_relationship_stability_score (build_social_features sx)
   \<and> job_stability_score default_ProfessionalFeatures = 0.5
   \<and> professional_credibility_score default_ProfessionalFeatures = 0.5
   \<and> lifestyle_stability_score default_LifestyleFeatures = 0.5
   \<and> income_lifestyle_alignment default_LifestyleFeatures = 0.5
   \<and> social_support_score default_SocialConnectednessFeatures = 0.5
   \<and> community_rootedness_score default_SocialConnectednessFeatures = 0.5
   \<and> relationship_stability_score default_SocialConnectednessFeatures = 0.5"
  using build_professional_derived [of px] build_lifestyle_derived [of lx]
    build_social_derived [of sx]
  by (simp add: default_ProfessionalFeatures_def default_LifestyleFeatures_def
        default_SocialConnectednessFeatures_def)

section \<open>Missing keys of the application\<close>

lemma dict_get_Some: "dict_get (Some v) d = v"
  by (simp add: dict_get_def)

lemma dict_get_None: "dict_get None d = d"
  by (simp add: dict_get_def)

text \<open>
  C10: a call of \<^verbatim>\<open>score_application\<close> on an application that lacks any of the keys
  credit_score, dti, ltv, employment_years and reserves_months does not raise. It
  returns the report of the application in which each missing key holds its default
  (680, 36, 80, 2 and 3), up to the narrative of the external client, whose prompt
  prints a missing key as N/A; in particular the echoed metrics and the components of
  the missing keys are those of the defaults.
\<close>

theorem missing_keys_use_defaults:
  "\<exists>r r'. score_application cl a pf lf sf = Inr r
     \<and> score_application cl
           (a\<lparr>app_credit_score := Some (dict_get (app_credit_score a) 680),
              app_dti := Some (dict_get (app_dti a) 36),
              app_ltv := Some (dict_get (app_ltv a) 80),
              app_employment_years := Some (dict_get (app_employment_years a) 2),
              app_reserves_months := Some (dict_get (app_reserves_months a) 3)\<rparr>)
           pf lf sf = Inr r'
     \<and> r\<lparr>ai_analysis := []\<rparr> = r'\<lparr>ai_analysis := []\<rparr>
     \<and> (app_credit_score a = None \<longrightarrow>
           report_credit_score r = 680 \<and> credit_component r = calculate_credit_risk 680)
     \<and> (app_dti a = None \<longrightarrow> dti_ratio r = 36 \<and> dti_component r = calculate_dti_risk 36)
     \<and> (app_ltv a = None \<longrightarrow> ltv_ratio r = 80 \<and> ltv_component r = calculate_ltv_risk 80)
     \<and> (app_employment_years a = None \<longrightarrow>
           employment_component r = calculate_employment_risk 2)
     \<and> (app_reserves_months a = None \<longrightarrow>
           reserves_component r = calculate_reserves_risk 3)"
  unfolding score_application_eq Let_def
  by (simp add: dict_get_Some dict_get_None split del: if_split)

lemma empty_application_report:
  "returned (score_application None empty_application None None None) report_credit_score = Some 680
   \<and> returned (score_application None empty_application None None None) dti_ratio = Some 36
   \<and> returned (score_application None empty_application None None None) ltv_ratio = Some 80
   \<and> returned (score_application None empty_application None None None) base_score = Some 32.554
   \<and> returned (score_application None empty_application None None None) risk_score = Some 33
   \<and> returned (score_application None empty_application None None None) risk_category = Some ''Moderate''
   \<and> returned (score_application None empty_application None None None) recommendation = Some ''Approve with Conditions''"
  unfolding score_application_eq Let_def
  by (simp add: returned_def empty_application_def dict_get_def truthy_def
        calculate_credit_risk_def calculate_dti_risk_def calculate_ltv_risk_def
        calculate_employment_risk_def calculate_reserves_risk_def py_round_def
        risk_category_and_recommendation_def)


text \<open>
  C10, witness: the empty application. Its report echoes 680, 36 and 80, has the
  components of the defaults and the risk score 33.
\<close>

theorem missing_keys_use_defaults_witness:
  "returned (score_application None empty_application None None None) report_credit_score
      = Some 680
   \<and> returned (score_application None empty_application None None None) dti_ratio = Some 36
   \<and> returned (score_application None empty_application None None None) ltv_ratio = Some 80
   \<and> returned (score_application None empty_application None None None) credit_component
      = Some (calculate_credit_risk 680)
   \<and> returned (score_application None empty_application None None None) employment_component
      = Some (calculate_employment_risk 2)
   \<and> returned (score_application None empty_application None None None) reserves_component
      = Some (calculate_reserves_risk 3)
   \<and> returned (score_application None empty_application None None None) risk_score = Some 33"
  using missing_keys_use_defaults [of None empty_application None None None]
    empty_application_report
  by (auto simp: returned_def empty_application_def)

end
